theory Spec2Isabelle
  imports Complex_Main
begin

section \<open>JavaScript values used by the info system\<close>

text \<open>
  The metadata that \<^verbatim>\<open>assets/js/main.js\<close> attaches to meshes consists of string literals,
  the boolean marker \<^verbatim>\<open>isComponent: true\<close> and missing properties. The value universe
  below has exactly these kinds of value (numbers and nested objects never flow into the
  fields read by the handlers).
\<close>

datatype jsval = Undefined | Null | Bool bool | Str string

text \<open>Operands for which \<^verbatim>\<open>??\<close> takes its right-hand side.\<close>

fun nullish :: "jsval \<Rightarrow> bool" where
  "nullish Undefined = True"
| "nullish Null = True"
| "nullish (Bool b) = False"
| "nullish (Str s) = False"

text \<open>ToBoolean: \<^verbatim>\<open>undefined\<close>, \<^verbatim>\<open>null\<close>, \<^verbatim>\<open>false\<close> and the empty string are falsy.\<close>

fun truthy :: "jsval \<Rightarrow> bool" where
  "truthy Undefined = False"
| "truthy Null = False"
| "truthy (Bool b) = b"
| "truthy (Str s) = (s \<noteq> [])"

text \<open>The operators \<^verbatim>\<open>a ?? b\<close> and \<^verbatim>\<open>a || b\<close>.\<close>

definition nullish_coalesce :: "jsval \<Rightarrow> jsval \<Rightarrow> jsval" where
  "nullish_coalesce a b = (if nullish a then b else a)"

definition logical_or :: "jsval \<Rightarrow> jsval \<Rightarrow> jsval" where
  "logical_or a b = (if truthy a then a else b)"

fun ToString :: "jsval \<Rightarrow> string" where
  "ToString Undefined = ''undefined''"
| "ToString Null = ''null''"
| "ToString (Bool b) = (if b then ''true'' else ''false'')"
| "ToString (Str s) = s"

text \<open>
  Assigning to \<^verbatim>\<open>textContent\<close>: the attribute is a nullable DOM string, so
  \<^verbatim>\<open>null\<close> and \<^verbatim>\<open>undefined\<close> give the empty text and every other value its string.
\<close>

definition set_textContent :: "jsval \<Rightarrow> string" where
  "set_textContent v = (if nullish v then [] else ToString v)"

text \<open>
  An object literal is a bag of properties; reading a property that was never written
  gives \<^verbatim>\<open>undefined\<close>. \<open>empty_object\<close> is \<^verbatim>\<open>{}\<close>, the \<^verbatim>\<open>userData\<close> every
  \<^verbatim>\<open>THREE.Object3D\<close> starts with.
\<close>

type_synonym jsobj = "string \<Rightarrow> jsval"

definition empty_object :: jsobj where
  "empty_object = (\<lambda>p. Undefined)"

text \<open>
  Optional chaining \<^verbatim>\<open>details?.p\<close>: the argument \<open>details\<close> may be missing
  (\<open>None\<close> stands for an argument that is \<^verbatim>\<open>undefined\<close> or \<^verbatim>\<open>null\<close>).
\<close>

definition opt_chain :: "jsobj option \<Rightarrow> string \<Rightarrow> jsval" where
  "opt_chain ob p = (case ob of None \<Rightarrow> Undefined | Some d \<Rightarrow> d p)"

section \<open>Scene nodes\<close>

text \<open>
  A node as the click handler sees it: the handler reads \<^verbatim>\<open>object.userData\<close>,
  \<^verbatim>\<open>object.parent\<close> and \<^verbatim>\<open>object.parent.userData\<close>, and the scene construction sets
  \<^verbatim>\<open>visible\<close>. A node therefore carries its visibility flag, its metadata and its
  parent (with the parent's own chain); \<open>None\<close> is the \<^verbatim>\<open>null\<close> parent of a node that
  has not been added anywhere. Geometry, material and transform are used by the renderer
  only.
\<close>

datatype object3d = Object3D (visible: bool) (userData: jsobj) (parent: "object3d option")

text \<open>\<^verbatim>\<open>new THREE.Mesh(..)\<close> and \<^verbatim>\<open>new THREE.Group()\<close>: visible, empty metadata, no parent.\<close>

definition new_Object3D :: object3d where
  "new_Object3D = Object3D True empty_object None"

text \<open>\<^verbatim>\<open>p.add(c)\<close> as seen from the child: its parent becomes \<open>p\<close>.\<close>

definition add_to :: "object3d \<Rightarrow> object3d \<Rightarrow> object3d" where
  "add_to p c = Object3D (visible c) (userData c) (Some p)"

definition set_visible :: "bool \<Rightarrow> object3d \<Rightarrow> object3d" where
  "set_visible v ob = Object3D v (userData ob) (parent ob)"

definition set_userData :: "jsobj \<Rightarrow> object3d \<Rightarrow> object3d" where
  "set_userData d ob = Object3D (visible ob) d (parent ob)"

text \<open>
  \<^verbatim>\<open>createComponent(geometry, material, position, name, details)\<close>, lines 21-36:
  \<^verbatim>\<open>
  const description = details?.description ?? details?.desc ?? '';
  const specs = details?.specs ?? '';
  mesh.userData = { isComponent: true, name: name, details: description, specs: specs };
  \<close>
\<close>

definition createComponent :: "jsval \<Rightarrow> jsobj option \<Rightarrow> object3d" where
  "createComponent name details =
     (let description = nullish_coalesce (opt_chain details ''description'')
                          (nullish_coalesce (opt_chain details ''desc'') (Str []));
          specs = nullish_coalesce (opt_chain details ''specs'') (Str [])
      in set_userData
           (empty_object(''isComponent'' := Bool True, ''name'' := name,
                         ''details'' := description, ''specs'' := specs))
           new_Object3D)"

text \<open>
  The results of scene construction that the claims refer to, as the nodes are once
  \<^verbatim>\<open>buildKitchenette\<close> has finished. \<open>scene_root\<close> is the global \<^verbatim>\<open>scene\<close>.

  The kettle, lines 715-716:
  \<^verbatim>\<open>
  const kettle = createComponent(.., "Kettle", {desc:"Electric kettle.", specs:"Color: Blue"});
  scene.add(kettle);
  \<close>
\<close>

definition scene_root :: object3d where
  "scene_root = new_Object3D"

definition kettle :: object3d where
  "kettle = add_to scene_root
     (createComponent (Str ''Kettle'')
        (Some (empty_object(''desc'' := Str ''Electric kettle.'', ''specs'' := Str ''Color: Blue''))))"

text \<open>
  \<^verbatim>\<open>createWindow\<close>, lines 413-449: a group holding \<^verbatim>\<open>mainFrame\<close>, which in turn holds the
  twelve panes (\<^verbatim>\<open>mainFrame.add(pane)\<close>); and a separate invisible mesh that carries the
  tag, whose metadata is assigned to the group:
  \<^verbatim>\<open>
  const windowComponent = createComponent(.., "Large Kitchen Window", {description: .., specs: ..});
  windowComponent.visible = false;
  group.userData = windowComponent.userData;
  scene.add(windowComponent);
  return group;            // scene.add(createWindow())
  \<close>
\<close>

definition windowComponent :: object3d where
  "windowComponent = add_to scene_root (set_visible False
     (createComponent (Str ''Large Kitchen Window'')
        (Some (empty_object(
           ''description'' := Str ''Multi-pane crittall-style window providing ample natural light.'',
           ''specs'' := Str ''Dimensions: 2.5 x 4.0 units | Frame: Light Blue Steel'')))))"

definition window_group :: object3d where
  "window_group = add_to scene_root (set_userData (userData windowComponent) new_Object3D)"

definition mainFrame :: object3d where
  "mainFrame = add_to window_group new_Object3D"

definition pane :: object3d where
  "pane = add_to mainFrame new_Object3D"

text \<open>
  The back wall behind the window, lines 342-345: a plain mesh added to the scene.
  \<^verbatim>\<open>
  const backWall = new THREE.Mesh(new THREE.BoxGeometry(roomWidth, wallHeight, 0.1), matWallAccent);
  scene.add(backWall);
  \<close>
\<close>

definition backWall :: object3d where
  "backWall = add_to scene_root new_Object3D"

section \<open>Pick resolution\<close>

text \<open>
  One entry of the list returned by \<^verbatim>\<open>raycaster.intersectObjects\<close>: the struck node and
  its distance along the ray.
\<close>

record intersection =
  distance :: real
  object :: object3d

text \<open>Whether \<^verbatim>\<open>ob.userData.isComponent\<close> is truthy, that is, whether the node is tagged.\<close>

definition isComponent :: "object3d \<Rightarrow> bool" where
  "isComponent ob = truthy (userData ob ''isComponent'')"

text \<open>
  The filter of \<^verbatim>\<open>onMouseClick\<close>, lines 1027-1028:
  \<^verbatim>\<open>
  .filter(i => i.object.userData.isComponent
            || (i.object.parent && i.object.parent.userData.isComponent))
  \<close>
\<close>

definition clickable :: "intersection \<Rightarrow> bool" where
  "clickable i = (isComponent (object i) \<or>
     (case parent (object i) of None \<Rightarrow> False | Some p \<Rightarrow> isComponent p))"

definition intersects :: "intersection list \<Rightarrow> intersection list" where
  "intersects hits = filter clickable hits"

text \<open>
  Lines 1030-1036: the first surviving entry decides.
  \<^verbatim>\<open>
  if (intersects.length > 0) {
    const object = intersects[0].object;
    const userData = object.userData.isComponent ? object.userData : object.parent.userData;
    displayComponentInfo(userData);
  } else { hideComponentInfo(); }
  \<close>
  Reading \<^verbatim>\<open>object.parent.userData\<close> of a node without parent throws a TypeError; the
  outcome \<open>TypeError\<close> keeps that branch in the model.
\<close>

datatype pick = NoPick | Picked jsobj | TypeError

definition resolve :: "intersection list \<Rightarrow> pick" where
  "resolve hits =
     (case intersects hits of
        [] \<Rightarrow> NoPick
      | i # rest \<Rightarrow>
          (if isComponent (object i) then Picked (userData (object i))
           else (case parent (object i) of
                   Some p \<Rightarrow> Picked (userData p)
                 | None \<Rightarrow> TypeError)))"

section \<open>The info panel\<close>

text \<open>
  The four DOM elements the handlers write to: the class list of \<^verbatim>\<open>#component-details\<close>
  and the text of \<^verbatim>\<open>#detail-name\<close>, \<^verbatim>\<open>#detail-description\<close> and \<^verbatim>\<open>#detail-specs\<close>.
\<close>

record dom =
  infoPanel_classList :: "string set"
  detailName_textContent :: string
  detailDesc_textContent :: string
  detailSpecs_textContent :: string

text \<open>
  Lines 1039-1044:
  \<^verbatim>\<open>
  detailName.textContent = data.name || "Component";
  detailDesc.textContent = data.details || data.desc || "";
  detailSpecs.textContent = "Specifications: " + (data.specs || "");
  infoPanel.classList.add('visible');
  \<close>
\<close>

definition displayComponentInfo :: "jsobj \<Rightarrow> dom \<Rightarrow> dom" where
  "displayComponentInfo data d =
     d\<lparr>detailName_textContent := set_textContent (logical_or (data ''name'') (Str ''Component'')),
       detailDesc_textContent :=
         set_textContent (logical_or (logical_or (data ''details'') (data ''desc'')) (Str [])),
       detailSpecs_textContent := ''Specifications: '' @ ToString (logical_or (data ''specs'') (Str [])),
       infoPanel_classList := insert ''visible'' (infoPanel_classList d)\<rparr>"

text \<open>Lines 1046-1048: \<^verbatim>\<open>infoPanel.classList.remove('visible')\<close>.\<close>

definition hideComponentInfo :: "dom \<Rightarrow> dom" where
  "hideComponentInfo d = d\<lparr>infoPanel_classList := infoPanel_classList d - {''visible''}\<rparr>"

text \<open>
  The selection state of the specification, read off the panel: the panel shows a tag
  exactly when it has the class \<^verbatim>\<open>visible\<close>, and what it shows are the three texts.
\<close>

datatype selection = Empty | Showing string string string

definition selection_state :: "dom \<Rightarrow> selection" where
  "selection_state d =
     (if ''visible'' \<in> infoPanel_classList d
      then Showing (detailName_textContent d) (detailDesc_textContent d) (detailSpecs_textContent d)
      else Empty)"

section \<open>Application state and event handlers\<close>

text \<open>
  The pointer position is read by the raycaster only. For it, numbers are idealised as
  reals; a quotient whose divisor is zero is \<^verbatim>\<open>Infinity\<close>, \<^verbatim>\<open>-Infinity\<close> or
  \<^verbatim>\<open>NaN\<close>, and \<open>None\<close> stands for such a value.
\<close>

type_synonym jsnum = "real option"

definition js_div :: "real \<Rightarrow> real \<Rightarrow> jsnum" where
  "js_div a b = (if b = 0 then None else Some (a / b))"

text \<open>
  The camera's frustum is computed in JavaScript's Number type, IEEE 754 binary64. A
  number is \<^verbatim>\<open>NaN\<close> or a sign (\<open>True\<close> for negative) with a magnitude, which is a
  non-negative real or infinite; so both zeros and both infinities are values.
\<close>

datatype magnitude = Finite real | Infinite

datatype number = NaN | Number bool magnitude

text \<open>
  Rounding to the nearest binary64 value acts on the magnitude (\<open>Infinite\<close> on
  overflow). It belongs to the language, not to the repository, and is a parameter of
  the arithmetic.
\<close>

type_synonym rounding = "real \<Rightarrow> magnitude"

text \<open>
  \<^verbatim>\<open>window.innerWidth\<close> and \<^verbatim>\<open>window.innerHeight\<close> are non-negative 32-bit
  integers, which binary64 holds exactly.
\<close>

definition number_of_nat :: "nat \<Rightarrow> number" where
  "number_of_nat n = Number False (Finite (real n))"

text \<open>Unary minus flips the sign; \<^verbatim>\<open>-NaN\<close> is \<^verbatim>\<open>NaN\<close>.\<close>

fun num_neg :: "number \<Rightarrow> number" where
  "num_neg NaN = NaN"
| "num_neg (Number s m) = Number (\<not> s) m"

text \<open>
  The product: the sign is the exclusive or of the signs, zero times infinity is
  \<^verbatim>\<open>NaN\<close>, and a finite product is rounded.
\<close>

fun num_mul :: "rounding \<Rightarrow> number \<Rightarrow> number \<Rightarrow> number" where
  "num_mul rnd (Number s (Finite a)) (Number t (Finite b)) = Number (s \<noteq> t) (rnd (a * b))"
| "num_mul rnd (Number s (Finite a)) (Number t Infinite) =
     (if a = 0 then NaN else Number (s \<noteq> t) Infinite)"
| "num_mul rnd (Number s Infinite) (Number t (Finite b)) =
     (if b = 0 then NaN else Number (s \<noteq> t) Infinite)"
| "num_mul rnd (Number s Infinite) (Number t Infinite) = Number (s \<noteq> t) Infinite"
| "num_mul rnd NaN y = NaN"
| "num_mul rnd x NaN = NaN"

text \<open>
  The quotient: zero by zero and infinity by infinity are \<^verbatim>\<open>NaN\<close>, a non-zero number
  by zero is an infinity, a finite number by an infinity is a zero, and a finite
  quotient is rounded.
\<close>

fun num_div :: "rounding \<Rightarrow> number \<Rightarrow> number \<Rightarrow> number" where
  "num_div rnd (Number s (Finite a)) (Number t (Finite b)) =
     (if b = 0 then (if a = 0 then NaN else Number (s \<noteq> t) Infinite)
      else Number (s \<noteq> t) (rnd (a / b)))"
| "num_div rnd (Number s (Finite a)) (Number t Infinite) = Number (s \<noteq> t) (Finite 0)"
| "num_div rnd (Number s Infinite) (Number t (Finite b)) = Number (s \<noteq> t) Infinite"
| "num_div rnd (Number s Infinite) (Number t Infinite) = NaN"
| "num_div rnd NaN y = NaN"
| "num_div rnd x NaN = NaN"

text \<open>
  Equality of numbers as \<^verbatim>\<open>===\<close> decides it: \<^verbatim>\<open>NaN\<close> equals nothing, itself
  included, and the two zeros are equal.
\<close>

fun strict_eq :: "number \<Rightarrow> number \<Rightarrow> bool" where
  "strict_eq (Number s m) (Number t n) = (m = n \<and> (s = t \<or> m = Finite 0))"
| "strict_eq NaN y = False"
| "strict_eq x NaN = False"

text \<open>
  Lines 10-11: \<^verbatim>\<open>const frustumSize = 16; const halfFrustum = frustumSize / 2;\<close>. Both
  constants and their quotient are small integers, which binary64 holds exactly.
\<close>

definition frustumSize :: real where
  "frustumSize = 16"

definition halfFrustum :: number where
  "halfFrustum = Number False (Finite (frustumSize / 2))"

record camera =
  camera_left :: number
  camera_right :: number
  camera_top :: number
  camera_bottom :: number

record window =
  innerWidth :: nat
  innerHeight :: nat

record mouse_event =
  clientX :: real
  clientY :: real

text \<open>
  The globals of \<^verbatim>\<open>main.js\<close>. \<open>scene\<close> lists the nodes of the tree below the global
  \<^verbatim>\<open>scene\<close>, each with its chain of parents; \<open>page\<close> is the info panel.
\<close>

record app_state =
  camera :: camera
  mouse :: "jsnum \<times> jsnum"
  scene :: "object3d list"
  renderer_size :: "nat \<times> nat"
  page :: dom

text \<open>
  \<^verbatim>\<open>THREE.Raycaster\<close> belongs to the three.js library, which the page loads from a CDN.
  The handler calls \<^verbatim>\<open>raycaster.setFromCamera(mouse, camera)\<close> and then
  \<^verbatim>\<open>raycaster.intersectObjects(scene.children, true)\<close>; the two calls together are a
  parameter of the model: a function from the pointer position, the camera and the tree
  to the list of entries.
\<close>

type_synonym raycaster = "jsnum \<times> jsnum \<Rightarrow> camera \<Rightarrow> object3d list \<Rightarrow> intersection list"

text \<open>
  Lines 1021-1022:
  \<^verbatim>\<open>
  mouse.x = (event.clientX / window.innerWidth) * 2 - 1;
  mouse.y = - (event.clientY / window.innerHeight) * 2 + 1;
  \<close>
\<close>

definition mouse_ndc :: "window \<Rightarrow> mouse_event \<Rightarrow> jsnum \<times> jsnum" where
  "mouse_ndc w event =
     (map_option (\<lambda>q. q * 2 - 1) (js_div (clientX event) (real (innerWidth w))),
      map_option (\<lambda>q. - q * 2 + 1) (js_div (clientY event) (real (innerHeight w))))"

text \<open>The list the raycaster returns for a click, and the tag the click resolves to.\<close>

definition cast :: "raycaster \<Rightarrow> window \<Rightarrow> mouse_event \<Rightarrow> app_state \<Rightarrow> intersection list" where
  "cast rc w event st = rc (mouse_ndc w event) (camera st) (scene st)"

definition pickResolution :: "raycaster \<Rightarrow> window \<Rightarrow> mouse_event \<Rightarrow> app_state \<Rightarrow> pick" where
  "pickResolution rc w event st = resolve (cast rc w event st)"

text \<open>
  \<^verbatim>\<open>onMouseClick(event)\<close>, lines 1019-1037. A TypeError ends the handler after the
  pointer position has been stored and before the panel is touched.
\<close>

definition onMouseClick :: "raycaster \<Rightarrow> window \<Rightarrow> mouse_event \<Rightarrow> app_state \<Rightarrow> app_state" where
  "onMouseClick rc w event st =
     (let st1 = st\<lparr>mouse := mouse_ndc w event\<rparr>
      in case resolve (rc (mouse st1) (camera st1) (scene st1)) of
           Picked data \<Rightarrow> st1\<lparr>page := displayComponentInfo data (page st1)\<rparr>
         | NoPick \<Rightarrow> st1\<lparr>page := hideComponentInfo (page st1)\<rparr>
         | TypeError \<Rightarrow> st1)"

text \<open>
  \<^verbatim>\<open>onWindowResize()\<close>, lines 1053-1066:
  \<^verbatim>\<open>
  const newAspect = newWidth / newHeight;
  camera.left = -halfFrustum * newAspect;
  camera.right = halfFrustum * newAspect;
  camera.top = halfFrustum;
  camera.bottom = -halfFrustum;
  camera.updateProjectionMatrix();
  renderer.setSize(newWidth, newHeight);
  \<close>
\<close>

definition onWindowResize :: "rounding \<Rightarrow> window \<Rightarrow> app_state \<Rightarrow> app_state" where
  "onWindowResize rnd w st =
     (let newWidth = innerWidth w;
          newHeight = innerHeight w;
          newAspect = num_div rnd (number_of_nat newWidth) (number_of_nat newHeight)
      in st\<lparr>camera := (camera st)\<lparr>
               camera_left := num_mul rnd (num_neg halfFrustum) newAspect,
               camera_right := num_mul rnd halfFrustum newAspect,
               camera_top := halfFrustum,
               camera_bottom := num_neg halfFrustum\<rparr>,
             renderer_size := (newWidth, newHeight)\<rparr>)"

section \<open>Auxiliary facts\<close>

text \<open>Selectors of constructed nodes, the nodes of the scene, and the shape of the handlers.\<close>

lemma clickable_iff:
  "clickable i \<longleftrightarrow>
     isComponent (object i) \<or> (\<exists>p. parent (object i) = Some p \<and> isComponent p)"
  by (simp add: clickable_def split: option.splits)

lemma intersects_Cons_split:
  assumes "intersects hits = i # rest"
  shows "\<exists>pre post. hits = pre @ i # post \<and> (\<forall>j\<in>set pre. \<not> clickable j) \<and> clickable i"
  using assms unfolding intersects_def filter_eq_Cons_iff by blast

lemma resolve_Cons:
  assumes "intersects hits = i # rest"
  shows "resolve hits =
     (if isComponent (object i) then Picked (userData (object i))
      else case parent (object i) of Some p \<Rightarrow> Picked (userData p) | None \<Rightarrow> TypeError)"
  using assms by (simp add: resolve_def)

lemma resolve_Nil: "intersects hits = [] \<Longrightarrow> resolve hits = NoPick"
  by (simp add: resolve_def)

lemma resolve_not_TypeError: "resolve hits \<noteq> TypeError"
proof (cases "intersects hits")
  case Nil
  then show ?thesis by (simp add: resolve_Nil)
next
  case (Cons i rest)
  then have "clickable i" using intersects_Cons_split by blast
  then show ?thesis
    using Cons by (auto simp: resolve_Cons clickable_iff)
qed

lemma resolve_cong: "intersects xs = intersects ys \<Longrightarrow> resolve xs = resolve ys"
  by (simp add: resolve_def)

lemma createComponent_isComponent: "isComponent (createComponent name details)"
  by (simp add: isComponent_def createComponent_def set_userData_def Let_def)

lemma add_to_sel [simp]:
  "visible (add_to p c) = visible c" "userData (add_to p c) = userData c"
  "parent (add_to p c) = Some p"
  by (simp_all add: add_to_def)

lemma set_visible_sel [simp]:
  "visible (set_visible v ob) = v" "userData (set_visible v ob) = userData ob"
  "parent (set_visible v ob) = parent ob"
  by (simp_all add: set_visible_def)

lemma set_userData_sel [simp]:
  "visible (set_userData d ob) = visible ob" "userData (set_userData d ob) = d"
  "parent (set_userData d ob) = parent ob"
  by (simp_all add: set_userData_def)

lemma new_Object3D_sel [simp]:
  "visible new_Object3D" "userData new_Object3D = empty_object" "parent new_Object3D = None"
  by (simp_all add: new_Object3D_def)

lemma isComponent_add_to [simp]: "isComponent (add_to p c) = isComponent c"
  by (simp add: isComponent_def)

lemma isComponent_set_visible [simp]: "isComponent (set_visible v c) = isComponent c"
  by (simp add: isComponent_def)

lemma not_isComponent_new [simp]: "\<not> isComponent new_Object3D"
  by (simp add: isComponent_def empty_object_def)

lemma createComponent_marker [simp]:
  "userData (createComponent name details) ''isComponent'' = Bool True"
  by (simp add: createComponent_def Let_def)

lemma isComponent_set_userData [simp]:
  "isComponent (set_userData d ob) = truthy (d ''isComponent'')"
  by (simp add: isComponent_def)

lemma window_scene:
  "isComponent windowComponent" "\<not> visible windowComponent"
  "isComponent window_group" "visible window_group"
  "userData window_group = userData windowComponent"
  "\<not> isComponent mainFrame" "visible mainFrame" "parent mainFrame = Some window_group"
  "\<not> isComponent pane" "visible pane" "parent pane = Some mainFrame"
  "parent window_group = Some scene_root" "\<not> isComponent scene_root"
  by (simp_all add: windowComponent_def window_group_def mainFrame_def pane_def scene_root_def
      createComponent_isComponent)

lemma kettle_tag:
  "isComponent kettle" "visible kettle"
  "userData kettle ''name'' = Str ''Kettle''"
  "userData kettle ''details'' = Str ''Electric kettle.''"
  "userData kettle ''specs'' = Str ''Color: Blue''"
  "userData kettle ''desc'' = Undefined"
  by (simp_all add: kettle_def createComponent_isComponent)
     (simp_all add: createComponent_def Let_def opt_chain_def empty_object_def
        nullish_coalesce_def)

lemma onMouseClick_cases:
  "onMouseClick rc w event st =
     (case pickResolution rc w event st of
        NoPick \<Rightarrow> st\<lparr>mouse := mouse_ndc w event, page := hideComponentInfo (page st)\<rparr>
      | Picked data \<Rightarrow> st\<lparr>mouse := mouse_ndc w event, page := displayComponentInfo data (page st)\<rparr>
      | TypeError \<Rightarrow> st\<lparr>mouse := mouse_ndc w event\<rparr>)"
  by (simp add: onMouseClick_def pickResolution_def cast_def Let_def split: pick.splits)

lemma pickResolution_not_TypeError: "pickResolution rc w event st \<noteq> TypeError"
  by (simp add: pickResolution_def resolve_not_TypeError)

lemma pickResolution_depends:
  "camera st1 = camera st2 \<Longrightarrow> scene st1 = scene st2 \<Longrightarrow>
     pickResolution rc w event st1 = pickResolution rc w event st2"
  by (simp add: pickResolution_def cast_def)

lemma onMouseClick_frame:
  "scene (onMouseClick rc w event st) = scene st"
  "camera (onMouseClick rc w event st) = camera st"
  "renderer_size (onMouseClick rc w event st) = renderer_size st"
  "mouse (onMouseClick rc w event st) = mouse_ndc w event"
  by (simp_all add: onMouseClick_cases split: pick.splits)

lemma selection_hide: "selection_state (hideComponentInfo d) = Empty"
  by (simp add: selection_state_def hideComponentInfo_def)

lemma selection_display:
  "selection_state (displayComponentInfo data d) =
     Showing (set_textContent (logical_or (data ''name'') (Str ''Component'')))
             (set_textContent (logical_or (logical_or (data ''details'') (data ''desc'')) (Str [])))
             (''Specifications: '' @ ToString (logical_or (data ''specs'') (Str [])))"
  by (simp add: selection_state_def displayComponentInfo_def)

lemma display_twice:
  "displayComponentInfo data (displayComponentInfo data d) = displayComponentInfo data d"
  by (simp add: displayComponentInfo_def)

lemma nearest_is_head:
  assumes "sorted_wrt (\<lambda>a b. distance a \<le> distance b) hits" and "k \<in> set hits"
    and "\<forall>j\<in>set hits. j \<noteq> k \<longrightarrow> distance k < distance j"
  shows "\<exists>rest. hits = k # rest"
proof (cases hits)
  case Nil
  with assms(2) show ?thesis by simp
next
  case (Cons h t)
  show ?thesis
  proof (cases "h = k")
    case True
    with Cons show ?thesis by simp
  next
    case False
    with Cons assms(2) have "k \<in> set t" by simp
    with Cons assms(1) have "distance h \<le> distance k" by simp
    moreover from False Cons assms(3) have "distance k < distance h" by simp
    ultimately show ?thesis by simp
  qed
qed

lemma backWall_plain:
  "\<not> isComponent backWall" "visible backWall" "parent backWall = Some scene_root"
  by (simp_all add: backWall_def)

lemma first_survivor:
  assumes "\<exists>i\<in>set hits. clickable i"
  shows "\<exists>pre i post. hits = pre @ i # post \<and> (\<forall>j\<in>set pre. \<not> clickable j) \<and> clickable i
           \<and> intersects hits = i # intersects post"
proof -
  from assms obtain pre i post where
    h: "hits = pre @ i # post" "clickable i" "\<forall>j\<in>set pre. \<not> clickable j"
    using split_list_first_prop [of hits clickable] by blast
  from h(3) have "filter clickable pre = []" by (simp add: filter_empty_conv)
  with h(1,2) have "intersects hits = i # intersects post" by (simp add: intersects_def)
  with h show ?thesis by blast
qed

lemma onWindowResize_camera:
  "camera_left (camera (onWindowResize rnd w st))
     = num_mul rnd (num_neg halfFrustum)
         (num_div rnd (number_of_nat (innerWidth w)) (number_of_nat (innerHeight w)))"
  "camera_right (camera (onWindowResize rnd w st))
     = num_mul rnd halfFrustum
         (num_div rnd (number_of_nat (innerWidth w)) (number_of_nat (innerHeight w)))"
  "camera_top (camera (onWindowResize rnd w st)) = halfFrustum"
  "camera_bottom (camera (onWindowResize rnd w st)) = num_neg halfFrustum"
  by (simp_all add: onWindowResize_def Let_def)

lemma halfFrustum_eight: "halfFrustum = Number False (Finite 8)"
  by (simp add: halfFrustum_def frustumSize_def)

lemma frustum_sides:
  "num_mul rnd (num_neg halfFrustum) (num_div rnd (number_of_nat wd) (number_of_nat ht)) =
     (if ht = 0 then (if wd = 0 then NaN else Number True Infinite)
      else Number True (case rnd (real wd / real ht) of
                          Finite a \<Rightarrow> rnd (8 * a) | Infinite \<Rightarrow> Infinite))"
  "num_mul rnd halfFrustum (num_div rnd (number_of_nat wd) (number_of_nat ht)) =
     (if ht = 0 then (if wd = 0 then NaN else Number False Infinite)
      else Number False (case rnd (real wd / real ht) of
                          Finite a \<Rightarrow> rnd (8 * a) | Infinite \<Rightarrow> Infinite))"
  by (simp_all add: halfFrustum_eight number_of_nat_def split: magnitude.splits)

section \<open>Tag attachment\<close>

text \<open>
  C4. For every call of \<open>createComponent\<close> the \<^verbatim>\<open>details\<close> field of the produced tag is
  the payload's \<^verbatim>\<open>description\<close> when that is neither \<^verbatim>\<open>null\<close> nor missing; otherwise
  the legacy \<^verbatim>\<open>desc\<close> when that is present; and the empty string when both are absent.
  In particular \<^verbatim>\<open>desc\<close> alone gives \<open>details = desc\<close>, and \<^verbatim>\<open>description\<close> wins when
  both are set.
\<close>

theorem createComponent_details:
  "(\<not> nullish (opt_chain details ''description'') \<longrightarrow>
      userData (createComponent name details) ''details'' = opt_chain details ''description'')
   \<and> (nullish (opt_chain details ''description'') \<and> \<not> nullish (opt_chain details ''desc'') \<longrightarrow>
      userData (createComponent name details) ''details'' = opt_chain details ''desc'')
   \<and> (nullish (opt_chain details ''description'') \<and> nullish (opt_chain details ''desc'') \<longrightarrow>
      userData (createComponent name details) ''details'' = Str [])"
  by (simp add: createComponent_def set_userData_def nullish_coalesce_def Let_def)

text \<open>The toaster's payload, a payload with both fields, an empty payload and no payload.\<close>

theorem createComponent_details_witness:
  "userData (createComponent (Str ''Toaster'')
      (Some (empty_object(''desc'' := Str ''Two-slice toaster.'', ''specs'' := Str ''Color: Yellow''))))
      ''details'' = Str ''Two-slice toaster.''
   \<and> userData (createComponent (Str ''Door'')
      (Some (empty_object(''description'' := Str ''White panel door'', ''desc'' := Str ''old text''))))
      ''details'' = Str ''White panel door''
   \<and> userData (createComponent (Str ''Bare'') (Some empty_object)) ''details'' = Str []
   \<and> userData (createComponent (Str ''Bare'') None) ''details'' = Str []"
  using
    createComponent_details [of "Some (empty_object(''desc'' := Str ''Two-slice toaster.'',
        ''specs'' := Str ''Color: Yellow''))" "Str ''Toaster''"]
    createComponent_details [of "Some (empty_object(''description'' := Str ''White panel door'',
        ''desc'' := Str ''old text''))" "Str ''Door''"]
    createComponent_details [of "Some empty_object" "Str ''Bare''"]
    createComponent_details [of None "Str ''Bare''"]
  by (simp add: opt_chain_def empty_object_def)

section \<open>Properties of pick resolution\<close>

text \<open>
  The filter of \<open>onMouseClick\<close> looks at the tag only. The invisible tag-holder of the
  window carries \<^verbatim>\<open>isComponent: true\<close> and is part of the scene
  (\<^verbatim>\<open>scene.add(windowComponent)\<close>), so an entry for it that the raycaster reports is kept:
  here a node whose visibility flag is false is in the filtered list.
\<close>

theorem invisible_holder_counterexample:
  "\<not> visible windowComponent
   \<and> intersects [\<lparr>distance = 1, object = windowComponent\<rparr>]
       = [\<lparr>distance = 1, object = windowComponent\<rparr>]
   \<and> \<lparr>distance = 1, object = windowComponent\<rparr>
       \<in> set (intersects [\<lparr>distance = 1, object = windowComponent\<rparr>])"
  by (simp add: intersects_def clickable_def window_scene)

text \<open>
  C1 (as amended). The filter applies no visibility test of its own: it keeps exactly the
  entries reported by the raycaster whose node or immediate parent is tagged. So no
  invisible node is in the filtered list whenever the raycaster reports none, and a
  reported invisible node that is tagged is kept. In a scene where a group \<open>grp\<close> holds
  untagged sub-meshes while a separate tag-holder \<open>holder\<close> carries the Component Tag that
  was copied onto the group's metadata, a click resolves to the group's tag whenever its
  nearest surviving entry is a sub-mesh of the group or the holder; in particular a click
  that strikes a sub-mesh does so whenever every other struck node is the holder, another
  sub-mesh of the group, or a node that is untagged with an untagged parent.
\<close>

theorem proxy_pick_resolution:
  "(\<forall>i\<in>set (intersects hits). i \<in> set hits \<and>
        (isComponent (object i) \<or> (\<exists>p. parent (object i) = Some p \<and> isComponent p)))
   \<and> (\<forall>i\<in>set hits.
        isComponent (object i) \<or> (\<exists>p. parent (object i) = Some p \<and> isComponent p)
        \<longrightarrow> i \<in> set (intersects hits))
   \<and> ((\<forall>i\<in>set hits. visible (object i)) \<longrightarrow> (\<forall>i\<in>set (intersects hits). visible (object i)))
   \<and> (\<forall>i\<in>set hits. isComponent (object i) \<and> \<not> visible (object i) \<longrightarrow> i \<in> set (intersects hits))
   \<and> (isComponent holder \<and> userData grp = userData holder
        \<and> (\<exists>i rest. intersects hits = i # rest
              \<and> (object i = holder \<or> (\<not> isComponent (object i) \<and> parent (object i) = Some grp)))
       \<longrightarrow> resolve hits = Picked (userData grp))
   \<and> (isComponent holder \<and> userData grp = userData holder
        \<and> (\<exists>s\<in>set hits. \<not> isComponent (object s) \<and> parent (object s) = Some grp)
        \<and> (\<forall>i\<in>set hits. object i = holder
               \<or> (\<not> isComponent (object i) \<and> parent (object i) = Some grp)
               \<or> (\<not> isComponent (object i)
                    \<and> (\<forall>p. parent (object i) = Some p \<longrightarrow> \<not> isComponent p)))
       \<longrightarrow> resolve hits = Picked (userData grp))"
proof -
  have kept: "\<forall>i\<in>set (intersects hits). i \<in> set hits \<and>
        (isComponent (object i) \<or> (\<exists>p. parent (object i) = Some p \<and> isComponent p))"
    by (simp add: intersects_def clickable_iff)
  have all: "\<forall>i\<in>set hits.
        isComponent (object i) \<or> (\<exists>p. parent (object i) = Some p \<and> isComponent p)
        \<longrightarrow> i \<in> set (intersects hits)"
    by (simp add: intersects_def clickable_iff)
  have vis: "(\<forall>i\<in>set hits. visible (object i)) \<longrightarrow> (\<forall>i\<in>set (intersects hits). visible (object i))"
    by (simp add: intersects_def)
  have inv: "\<forall>i\<in>set hits. isComponent (object i) \<and> \<not> visible (object i) \<longrightarrow> i \<in> set (intersects hits)"
    by (simp add: intersects_def clickable_def)
  have first: "\<And>i rest. isComponent holder \<Longrightarrow> userData grp = userData holder \<Longrightarrow>
      intersects hits = i # rest \<Longrightarrow>
      object i = holder \<or> (\<not> isComponent (object i) \<and> parent (object i) = Some grp) \<Longrightarrow>
      resolve hits = Picked (userData grp)"
  proof -
    fix i rest
    assume t: "isComponent holder" "userData grp = userData holder"
      and eq: "intersects hits = i # rest"
      and i: "object i = holder \<or> (\<not> isComponent (object i) \<and> parent (object i) = Some grp)"
    from resolve_Cons [OF eq] t i show "resolve hits = Picked (userData grp)" by auto
  qed
  {
    assume t: "isComponent holder" "userData grp = userData holder"
      and s: "\<exists>s\<in>set hits. \<not> isComponent (object s) \<and> parent (object s) = Some grp"
      and a: "\<forall>i\<in>set hits. object i = holder
               \<or> (\<not> isComponent (object i) \<and> parent (object i) = Some grp)
               \<or> (\<not> isComponent (object i)
                    \<and> (\<forall>p. parent (object i) = Some p \<longrightarrow> \<not> isComponent p))"
    from t have grp: "isComponent grp" by (simp add: isComponent_def)
    with s have "\<exists>i\<in>set hits. clickable i" by (auto simp: clickable_iff)
    from first_survivor [OF this] obtain pre i post where
      h: "hits = pre @ i # post" "clickable i" "intersects hits = i # intersects post"
      by blast
    from h(1) a have "object i = holder
               \<or> (\<not> isComponent (object i) \<and> parent (object i) = Some grp)
               \<or> (\<not> isComponent (object i)
                    \<and> (\<forall>p. parent (object i) = Some p \<longrightarrow> \<not> isComponent p))"
      by simp
    with h(2) have "object i = holder \<or> (\<not> isComponent (object i) \<and> parent (object i) = Some grp)"
      by (auto simp: clickable_iff)
    with t h(3) have "resolve hits = Picked (userData grp)" by (rule first)
  }
  note scene = this
  from kept all vis inv first scene show ?thesis by blast
qed

text \<open>
  Rays through the kitchen window, which end in the back wall: one that the raycaster
  reports with the invisible \<open>windowComponent\<close>, and one through a pane that it reports
  without. Both resolve to the tag of the window group.
\<close>

theorem proxy_pick_resolution_witness:
  "resolve [\<lparr>distance = 2, object = windowComponent\<rparr>, \<lparr>distance = 2, object = mainFrame\<rparr>,
            \<lparr>distance = 21/10, object = backWall\<rparr>] = Picked (userData window_group)
   \<and> resolve [\<lparr>distance = 19/10, object = pane\<rparr>, \<lparr>distance = 2, object = mainFrame\<rparr>,
            \<lparr>distance = 21/10, object = backWall\<rparr>] = Picked (userData window_group)
   \<and> userData window_group ''name'' = Str ''Large Kitchen Window''
   \<and> intersects [\<lparr>distance = 19/10, object = pane\<rparr>, \<lparr>distance = 2, object = mainFrame\<rparr>,
            \<lparr>distance = 21/10, object = backWall\<rparr>] = [\<lparr>distance = 2, object = mainFrame\<rparr>]
   \<and> visible (object (hd (intersects [\<lparr>distance = 19/10, object = pane\<rparr>,
            \<lparr>distance = 2, object = mainFrame\<rparr>, \<lparr>distance = 21/10, object = backWall\<rparr>])))
   \<and> \<lparr>distance = 2, object = windowComponent\<rparr>
       \<in> set (intersects [\<lparr>distance = 2, object = windowComponent\<rparr>,
            \<lparr>distance = 2, object = mainFrame\<rparr>, \<lparr>distance = 21/10, object = backWall\<rparr>])"
proof -
  let ?h = "\<lparr>distance = 2, object = windowComponent\<rparr>"
  let ?f = "\<lparr>distance = 2, object = mainFrame\<rparr>"
  let ?w = "\<lparr>distance = 21/10, object = backWall\<rparr>"
  let ?p = "\<lparr>distance = 19/10, object = pane\<rparr>"
  have s: "isComponent windowComponent \<and> userData window_group = userData windowComponent"
    by (simp add: window_scene)
  have 1: "resolve [?h, ?f, ?w] = Picked (userData window_group)"
    using proxy_pick_resolution [of "[?h, ?f, ?w]" windowComponent window_group] s
    by (simp add: window_scene backWall_plain scene_root_def)
  have 2: "resolve [?p, ?f, ?w] = Picked (userData window_group)"
    using proxy_pick_resolution [of "[?p, ?f, ?w]" windowComponent window_group] s
    by (simp add: window_scene backWall_plain scene_root_def)
  have 3: "userData window_group ''name'' = Str ''Large Kitchen Window''"
    by (simp add: window_group_def windowComponent_def createComponent_def Let_def)
  have 4: "intersects [?p, ?f, ?w] = [?f]"
    by (simp add: intersects_def clickable_def window_scene backWall_plain scene_root_def)
  have "\<forall>i\<in>set (intersects [?p, ?f, ?w]). visible (object i)"
    using proxy_pick_resolution [of "[?p, ?f, ?w]" windowComponent window_group]
    by (simp add: window_scene backWall_plain)
  then have 5: "visible (object (hd (intersects [?p, ?f, ?w])))"
    by (simp add: 4)
  have 6: "?h \<in> set (intersects [?h, ?f, ?w])"
    using proxy_pick_resolution [of "[?h, ?f, ?w]" windowComponent window_group]
    by (simp add: window_scene)
  from 1 2 3 4 5 6 show ?thesis by blast
qed

text \<open>
  C2. For every list of entries, the filter keeps exactly the entries whose struck node
  is tagged or whose immediate parent is tagged. The first surviving entry in the
  raycaster's order (the nearest one) decides: when its node is tagged the result is that
  node's own tag, whatever its ancestors carry; when its node is untagged the result is the
  tag of the immediate parent.
\<close>

theorem pick_filter_and_resolution:
  "(\<forall>i\<in>set (intersects hits). i \<in> set hits \<and>
        (isComponent (object i) \<or> (\<exists>p. parent (object i) = Some p \<and> isComponent p)))
   \<and> (\<forall>i\<in>set hits.
        isComponent (object i) \<or> (\<exists>p. parent (object i) = Some p \<and> isComponent p)
        \<longrightarrow> i \<in> set (intersects hits))
   \<and> (\<forall>i rest. intersects hits = i # rest \<longrightarrow>
        (\<exists>pre post. hits = pre @ i # post \<and>
            (\<forall>j\<in>set pre. \<not> isComponent (object j) \<and>
                (\<forall>p. parent (object j) = Some p \<longrightarrow> \<not> isComponent p)))
        \<and> (isComponent (object i) \<longrightarrow> resolve hits = Picked (userData (object i)))
        \<and> (\<not> isComponent (object i) \<longrightarrow>
              (\<exists>p. parent (object i) = Some p \<and> isComponent p
                   \<and> resolve hits = Picked (userData p))))"
proof (intro conjI allI impI ballI)
  fix i assume "i \<in> set (intersects hits)"
  then show "i \<in> set hits" by (simp add: intersects_def)
  from \<open>i \<in> set (intersects hits)\<close>
  show "isComponent (object i) \<or> (\<exists>p. parent (object i) = Some p \<and> isComponent p)"
    by (simp add: intersects_def clickable_iff)
next
  fix i assume "i \<in> set hits"
    and "isComponent (object i) \<or> (\<exists>p. parent (object i) = Some p \<and> isComponent p)"
  then show "i \<in> set (intersects hits)" by (simp add: intersects_def clickable_iff)
next
  fix i rest assume eq: "intersects hits = i # rest"
  from intersects_Cons_split [OF eq]
  show "\<exists>pre post. hits = pre @ i # post \<and>
            (\<forall>j\<in>set pre. \<not> isComponent (object j) \<and>
                (\<forall>p. parent (object j) = Some p \<longrightarrow> \<not> isComponent p))"
    unfolding clickable_iff by blast
  { assume "isComponent (object i)"
    then show "resolve hits = Picked (userData (object i))"
      by (simp add: resolve_Cons [OF eq]) }
  { assume no: "\<not> isComponent (object i)"
    from intersects_Cons_split [OF eq] have "clickable i" by blast
    with no obtain p where "parent (object i) = Some p" "isComponent p"
      by (auto simp: clickable_iff)
    then show "\<exists>p. parent (object i) = Some p \<and> isComponent p
                   \<and> resolve hits = Picked (userData p)"
      using no by (simp add: resolve_Cons [OF eq]) }
qed

text \<open>
  A pane, the window frame and the kettle on one ray; and a tagged lid placed under the
  tagged kettle, which resolves to its own tag.
\<close>

theorem pick_filter_and_resolution_witness:
  "intersects [\<lparr>distance = 1, object = pane\<rparr>, \<lparr>distance = 2, object = mainFrame\<rparr>,
               \<lparr>distance = 5, object = kettle\<rparr>]
     = [\<lparr>distance = 2, object = mainFrame\<rparr>, \<lparr>distance = 5, object = kettle\<rparr>]
   \<and> resolve [\<lparr>distance = 1, object = pane\<rparr>, \<lparr>distance = 2, object = mainFrame\<rparr>,
               \<lparr>distance = 5, object = kettle\<rparr>] = Picked (userData window_group)
   \<and> resolve [\<lparr>distance = 1, object = add_to kettle (createComponent (Str ''Lid'') None)\<rparr>]
       = Picked (userData (createComponent (Str ''Lid'') None))"
proof -
  let ?e1 = "\<lparr>distance = 1, object = pane\<rparr>"
  let ?e2 = "\<lparr>distance = 2, object = mainFrame\<rparr>"
  let ?e3 = "\<lparr>distance = 5, object = kettle\<rparr>"
  let ?lid = "\<lparr>distance = 1, object = add_to kettle (createComponent (Str ''Lid'') None)\<rparr>"
  have f: "intersects [?e1, ?e2, ?e3] = [?e2, ?e3]"
    by (simp add: intersects_def clickable_def window_scene kettle_tag)
  from pick_filter_and_resolution [of "[?e1, ?e2, ?e3]"] f
  have "\<not> isComponent (object ?e2) \<longrightarrow>
          (\<exists>p. parent (object ?e2) = Some p \<and> isComponent p
               \<and> resolve [?e1, ?e2, ?e3] = Picked (userData p))"
    by blast
  then have r: "resolve [?e1, ?e2, ?e3] = Picked (userData window_group)"
    by (simp add: window_scene)
  have g: "intersects [?lid] = [?lid]"
    by (simp add: intersects_def clickable_def createComponent_isComponent)
  from pick_filter_and_resolution [of "[?lid]"] g
  have "isComponent (object ?lid) \<longrightarrow> resolve [?lid] = Picked (userData (object ?lid))"
    by blast
  then have "resolve [?lid] = Picked (userData (createComponent (Str ''Lid'') None))"
    by (simp add: createComponent_isComponent)
  with f r show ?thesis by simp
qed

text \<open>
  A ray through a window pane also strikes \<open>mainFrame\<close> behind it. The pane is untagged,
  its parent \<open>mainFrame\<close> is untagged and its grandparent, the window group, is tagged; the
  click nevertheless resolves to the window's tag, through the entry of \<open>mainFrame\<close>.
\<close>

theorem grandparent_tag_counterexample:
  "\<not> isComponent pane \<and> parent pane = Some mainFrame \<and> \<not> isComponent mainFrame
   \<and> parent mainFrame = Some window_group \<and> isComponent window_group
   \<and> resolve [\<lparr>distance = 1, object = pane\<rparr>, \<lparr>distance = 2, object = mainFrame\<rparr>]
       = Picked (userData window_group)
   \<and> resolve [\<lparr>distance = 1, object = pane\<rparr>, \<lparr>distance = 2, object = mainFrame\<rparr>] \<noteq> NoPick"
  by (simp add: resolve_def intersects_def clickable_def window_scene)

text \<open>
  C3 (as amended). Ancestor fallback is exactly one level: an entry whose node is
  untagged, with an untagged immediate parent and a tagged grandparent, is discarded by the
  filter, and resolution gives the same result as if that node had not been struck. So
  resolution yields none when it is the only struck node, and whenever no other struck
  entry is tagged or has a tagged immediate parent.
\<close>

theorem grandparent_tag_ignored:
  assumes "\<not> isComponent (object i)" and "parent (object i) = Some p" and "\<not> isComponent p"
    and "parent p = Some g" and "isComponent g"
  shows "i \<notin> set (intersects hits)
     \<and> intersects (pre @ i # post) = intersects (pre @ post)
     \<and> resolve (pre @ i # post) = resolve (pre @ post)
     \<and> resolve [i] = NoPick
     \<and> ((\<forall>j\<in>set (pre @ post). \<not> clickable j) \<longrightarrow> resolve (pre @ i # post) = NoPick)"
proof -
  from assms have nc: "\<not> clickable i" by (simp add: clickable_def)
  then have a: "i \<notin> set (intersects hits)" by (simp add: intersects_def)
  from nc have b: "intersects (pre @ i # post) = intersects (pre @ post)"
    by (simp add: intersects_def)
  then have c: "resolve (pre @ i # post) = resolve (pre @ post)" by (rule resolve_cong)
  from nc have d: "resolve [i] = NoPick" by (simp add: resolve_def intersects_def)
  have e: "(\<forall>j\<in>set (pre @ post). \<not> clickable j) \<longrightarrow> resolve (pre @ i # post) = NoPick"
  proof
    assume "\<forall>j\<in>set (pre @ post). \<not> clickable j"
    then have "intersects (pre @ post) = []" unfolding intersects_def filter_empty_conv by blast
    with c show "resolve (pre @ i # post) = NoPick" by (simp add: resolve_def)
  qed
  from a b c d e show ?thesis by blast
qed

text \<open>The pane alone, the pane behind an untagged node, and the pane in front of the kettle.\<close>

theorem grandparent_tag_ignored_witness:
  "resolve [\<lparr>distance = 1, object = pane\<rparr>] = NoPick
   \<and> resolve [\<lparr>distance = 1/2, object = scene_root\<rparr>, \<lparr>distance = 1, object = pane\<rparr>] = NoPick
   \<and> resolve [\<lparr>distance = 1, object = pane\<rparr>, \<lparr>distance = 2, object = kettle\<rparr>]
       = resolve [\<lparr>distance = 2, object = kettle\<rparr>]"
proof -
  let ?e = "\<lparr>distance = 1, object = pane\<rparr>"
  let ?pre = "[\<lparr>distance = 1/2, object = scene_root\<rparr>]"
  have h: "\<not> isComponent (object ?e)" "parent (object ?e) = Some mainFrame"
    "\<not> isComponent mainFrame" "parent mainFrame = Some window_group" "isComponent window_group"
    by (simp_all add: window_scene)
  have n: "\<forall>j\<in>set (?pre @ []). \<not> clickable j"
    by (simp add: clickable_def scene_root_def)
  from grandparent_tag_ignored [OF h, of "[]" ?pre "[]"] n
  have "resolve [?e] = NoPick" "resolve (?pre @ [?e]) = NoPick" by blast+
  moreover from grandparent_tag_ignored [OF h, of "[]" "[]" "[\<lparr>distance = 2, object = kettle\<rparr>]"]
  have "resolve ([] @ ?e # [\<lparr>distance = 2, object = kettle\<rparr>])
        = resolve ([] @ [\<lparr>distance = 2, object = kettle\<rparr>])" by blast
  ultimately show ?thesis by simp
qed

section \<open>Selection display\<close>

text \<open>
  C5. For every click whose filtered list of entries is empty (in particular when the
  ray misses every node), resolution yields none and afterwards the selection state is
  \<open>Empty\<close>: the panel does not have the class \<^verbatim>\<open>visible\<close>, whatever it showed before.
\<close>

theorem miss_hides_panel:
  assumes "intersects (cast rc w event st) = []"
  shows "pickResolution rc w event st = NoPick
     \<and> selection_state (page (onMouseClick rc w event st)) = Empty
     \<and> ''visible'' \<notin> infoPanel_classList (page (onMouseClick rc w event st))"
proof -
  from assms have "pickResolution rc w event st = NoPick"
    by (simp add: pickResolution_def resolve_Nil)
  then show ?thesis
    by (simp add: onMouseClick_cases selection_hide) (simp add: hideComponentInfo_def)
qed

text \<open>A miss while the kettle is shown, and a click on a bare pane while nothing is shown.\<close>

theorem miss_hides_panel_witness:
  "selection_state (page (onMouseClick (\<lambda>m c s. []) \<lparr>innerWidth = 800, innerHeight = 600\<rparr>
       \<lparr>clientX = 10, clientY = 20\<rparr>
       \<lparr>camera = \<lparr>camera_left = Number True (Finite 12), camera_right = Number False (Finite 12),
                   camera_top = Number False (Finite 8), camera_bottom = Number True (Finite 8)\<rparr>,
        mouse = (Some 0, Some 0), scene = [kettle], renderer_size = (800, 600),
        page = \<lparr>infoPanel_classList = {''visible''}, detailName_textContent = ''Kettle'',
                detailDesc_textContent = ''Electric kettle.'',
                detailSpecs_textContent = ''Specifications: Color: Blue''\<rparr>\<rparr>)) = Empty
   \<and> selection_state (page (onMouseClick (\<lambda>m c s. [\<lparr>distance = 1, object = pane\<rparr>])
       \<lparr>innerWidth = 800, innerHeight = 600\<rparr> \<lparr>clientX = 10, clientY = 20\<rparr>
       \<lparr>camera = \<lparr>camera_left = Number True (Finite 12), camera_right = Number False (Finite 12),
                   camera_top = Number False (Finite 8), camera_bottom = Number True (Finite 8)\<rparr>,
        mouse = (Some 0, Some 0), scene = [pane], renderer_size = (800, 600),
        page = \<lparr>infoPanel_classList = {}, detailName_textContent = [],
                detailDesc_textContent = [], detailSpecs_textContent = []\<rparr>\<rparr>)) = Empty"
proof -
  let ?w = "\<lparr>innerWidth = 800, innerHeight = 600\<rparr>"
  let ?e = "\<lparr>clientX = 10, clientY = 20\<rparr>"
  let ?cam = "\<lparr>camera_left = Number True (Finite 12), camera_right = Number False (Finite 12),
                camera_top = Number False (Finite 8), camera_bottom = Number True (Finite 8)\<rparr>"
  let ?showing = "\<lparr>camera = ?cam, mouse = (Some 0, Some 0), scene = [kettle],
        renderer_size = (800, 600),
        page = \<lparr>infoPanel_classList = {''visible''}, detailName_textContent = ''Kettle'',
                detailDesc_textContent = ''Electric kettle.'',
                detailSpecs_textContent = ''Specifications: Color: Blue''\<rparr>\<rparr>"
  let ?empty = "\<lparr>camera = ?cam, mouse = (Some 0, Some 0), scene = [pane],
        renderer_size = (800, 600),
        page = \<lparr>infoPanel_classList = {}, detailName_textContent = [],
                detailDesc_textContent = [], detailSpecs_textContent = []\<rparr>\<rparr>"
  have a: "intersects (cast (\<lambda>m c s. []) ?w ?e ?showing) = []"
    by (simp add: cast_def intersects_def)
  have b: "intersects (cast (\<lambda>m c s. [\<lparr>distance = 1, object = pane\<rparr>]) ?w ?e ?empty) = []"
    by (simp add: cast_def intersects_def clickable_def window_scene)
  from miss_hides_panel [OF a] miss_hides_panel [OF b] show ?thesis by blast
qed

text \<open>
  C6. Let node \<open>K\<close> carry the tag with name \<^verbatim>\<open>Kettle\<close>, details \<^verbatim>\<open>Electric kettle.\<close> and
  specs \<^verbatim>\<open>Color: Blue\<close>. A click whose ray strikes \<open>K\<close> at a distance smaller than that of
  every other entry of the distance-sorted list resolves to exactly the tag of \<open>K\<close>, and
  the panel then shows \<^verbatim>\<open>Kettle\<close>, \<^verbatim>\<open>Electric kettle.\<close> and
  \<^verbatim>\<open>Specifications: Color: Blue\<close>.
\<close>

theorem tagged_nearest_click_shows_tag:
  assumes "sorted_wrt (\<lambda>a b. distance a \<le> distance b) (cast rc w event st)"
    and "k \<in> set (cast rc w event st)"
    and "\<forall>j\<in>set (cast rc w event st). j \<noteq> k \<longrightarrow> distance k < distance j"
    and "isComponent (object k)"
    and "userData (object k) ''name'' = Str ''Kettle''"
    and "userData (object k) ''details'' = Str ''Electric kettle.''"
    and "userData (object k) ''specs'' = Str ''Color: Blue''"
  shows "pickResolution rc w event st = Picked (userData (object k))
     \<and> selection_state (page (onMouseClick rc w event st))
         = Showing ''Kettle'' ''Electric kettle.'' ''Specifications: Color: Blue''"
proof -
  from nearest_is_head [OF assms(1-3)] obtain rest where h: "cast rc w event st = k # rest" ..
  from assms(4) have "clickable k" by (simp add: clickable_def)
  then have "intersects (cast rc w event st) = k # intersects rest"
    by (simp add: h intersects_def)
  from resolve_Cons [OF this] assms(4)
  have p: "pickResolution rc w event st = Picked (userData (object k))"
    by (simp add: pickResolution_def)
  then show ?thesis
    by (simp add: onMouseClick_cases selection_display assms(5-7) logical_or_def set_textContent_def)
qed

text \<open>The kettle of the scene in front of two other candidates.\<close>

theorem tagged_nearest_click_shows_tag_witness:
  "selection_state (page (onMouseClick
       (\<lambda>m c s. [\<lparr>distance = 3, object = kettle\<rparr>, \<lparr>distance = 4, object = mainFrame\<rparr>,
                 \<lparr>distance = 7, object = pane\<rparr>])
       \<lparr>innerWidth = 800, innerHeight = 600\<rparr> \<lparr>clientX = 400, clientY = 300\<rparr>
       \<lparr>camera = \<lparr>camera_left = Number True (Finite 12), camera_right = Number False (Finite 12),
                   camera_top = Number False (Finite 8), camera_bottom = Number True (Finite 8)\<rparr>,
        mouse = (Some 0, Some 0), scene = [kettle, mainFrame, pane], renderer_size = (800, 600),
        page = \<lparr>infoPanel_classList = {}, detailName_textContent = [],
                detailDesc_textContent = [], detailSpecs_textContent = []\<rparr>\<rparr>))
     = Showing ''Kettle'' ''Electric kettle.'' ''Specifications: Color: Blue''"
proof -
  let ?rc = "\<lambda>m c s. [\<lparr>distance = 3, object = kettle\<rparr>, \<lparr>distance = 4, object = mainFrame\<rparr>,
                 \<lparr>distance = 7, object = pane\<rparr>] :: intersection list"
  let ?w = "\<lparr>innerWidth = 800, innerHeight = 600\<rparr>"
  let ?e = "\<lparr>clientX = 400, clientY = 300\<rparr>"
  let ?st = "\<lparr>camera = \<lparr>camera_left = Number True (Finite 12), camera_right = Number False (Finite 12),
                   camera_top = Number False (Finite 8), camera_bottom = Number True (Finite 8)\<rparr>,
        mouse = (Some 0, Some 0), scene = [kettle, mainFrame, pane], renderer_size = (800, 600),
        page = \<lparr>infoPanel_classList = {}, detailName_textContent = [],
                detailDesc_textContent = [], detailSpecs_textContent = []\<rparr>\<rparr>"
  let ?k = "\<lparr>distance = 3, object = kettle\<rparr>"
  have c: "cast ?rc ?w ?e ?st = [?k, \<lparr>distance = 4, object = mainFrame\<rparr>,
                 \<lparr>distance = 7, object = pane\<rparr>]"
    by (simp add: cast_def)
  have 1: "sorted_wrt (\<lambda>a b. distance a \<le> distance b) (cast ?rc ?w ?e ?st)"
    unfolding c by simp
  have 2: "?k \<in> set (cast ?rc ?w ?e ?st)" unfolding c by simp
  have 3: "\<forall>j\<in>set (cast ?rc ?w ?e ?st). j \<noteq> ?k \<longrightarrow> distance ?k < distance j"
    unfolding c by simp
  have 4: "isComponent (object ?k)" "userData (object ?k) ''name'' = Str ''Kettle''"
    "userData (object ?k) ''details'' = Str ''Electric kettle.''"
    "userData (object ?k) ''specs'' = Str ''Color: Blue''"
    by (simp_all add: kettle_tag)
  from tagged_nearest_click_shows_tag [OF 1 2 3 4] show ?thesis by blast
qed

text \<open>
  C8. When a click resolves to a tag \<open>T\<close>, the panel shows \<open>T\<close>; the same click issued
  again resolves to \<open>T\<close> again and leaves the state as it was after the first click: the
  selection is still showing the same three texts and has not toggled to \<open>Empty\<close>.
\<close>

theorem repeated_pick_idempotent:
  assumes "pickResolution rc w event st = Picked T"
  shows "selection_state (page (onMouseClick rc w event st))
       = Showing (set_textContent (logical_or (T ''name'') (Str ''Component'')))
           (set_textContent (logical_or (logical_or (T ''details'') (T ''desc'')) (Str [])))
           (''Specifications: '' @ ToString (logical_or (T ''specs'') (Str [])))
     \<and> pickResolution rc w event (onMouseClick rc w event st) = Picked T
     \<and> selection_state (page (onMouseClick rc w event (onMouseClick rc w event st)))
         = selection_state (page (onMouseClick rc w event st))
     \<and> selection_state (page (onMouseClick rc w event (onMouseClick rc w event st))) \<noteq> Empty
     \<and> onMouseClick rc w event (onMouseClick rc w event st) = onMouseClick rc w event st"
proof -
  let ?s1 = "onMouseClick rc w event st"
  have s1: "?s1 = st\<lparr>mouse := mouse_ndc w event, page := displayComponentInfo T (page st)\<rparr>"
    using assms by (simp add: onMouseClick_cases)
  have again: "pickResolution rc w event ?s1 = Picked T"
    using assms pickResolution_depends [of ?s1 st rc w event] by (simp add: onMouseClick_frame)
  have s2: "onMouseClick rc w event ?s1 = ?s1"
    using again by (simp add: onMouseClick_cases [of rc w event ?s1]) (simp add: s1 display_twice)
  have sel: "selection_state (page ?s1)
       = Showing (set_textContent (logical_or (T ''name'') (Str ''Component'')))
           (set_textContent (logical_or (logical_or (T ''details'') (T ''desc'')) (Str [])))
           (''Specifications: '' @ ToString (logical_or (T ''specs'') (Str [])))"
    by (simp add: s1 selection_display)
  from sel again s2 show ?thesis by simp
qed

text \<open>Clicking the kettle twice.\<close>

theorem repeated_pick_idempotent_witness:
  "selection_state (page (onMouseClick (\<lambda>m c s. [\<lparr>distance = 3, object = kettle\<rparr>])
       \<lparr>innerWidth = 800, innerHeight = 600\<rparr> \<lparr>clientX = 400, clientY = 300\<rparr>
     (onMouseClick (\<lambda>m c s. [\<lparr>distance = 3, object = kettle\<rparr>])
       \<lparr>innerWidth = 800, innerHeight = 600\<rparr> \<lparr>clientX = 400, clientY = 300\<rparr>
       \<lparr>camera = \<lparr>camera_left = Number True (Finite 12), camera_right = Number False (Finite 12),
                   camera_top = Number False (Finite 8), camera_bottom = Number True (Finite 8)\<rparr>,
        mouse = (Some 0, Some 0), scene = [kettle], renderer_size = (800, 600),
        page = \<lparr>infoPanel_classList = {}, detailName_textContent = [],
                detailDesc_textContent = [], detailSpecs_textContent = []\<rparr>\<rparr>)))
     = Showing ''Kettle'' ''Electric kettle.'' ''Specifications: Color: Blue''"
proof -
  let ?rc = "\<lambda>m c s. [\<lparr>distance = 3, object = kettle\<rparr>] :: intersection list"
  let ?w = "\<lparr>innerWidth = 800, innerHeight = 600\<rparr>"
  let ?e = "\<lparr>clientX = 400, clientY = 300\<rparr>"
  let ?st = "\<lparr>camera = \<lparr>camera_left = Number True (Finite 12), camera_right = Number False (Finite 12),
                   camera_top = Number False (Finite 8), camera_bottom = Number True (Finite 8)\<rparr>,
        mouse = (Some 0, Some 0), scene = [kettle], renderer_size = (800, 600),
        page = \<lparr>infoPanel_classList = {}, detailName_textContent = [],
                detailDesc_textContent = [], detailSpecs_textContent = []\<rparr>\<rparr>"
  have p: "pickResolution ?rc ?w ?e ?st = Picked (userData kettle)"
    by (simp add: pickResolution_def cast_def resolve_def intersects_def clickable_def kettle_tag)
  from repeated_pick_idempotent [OF p]
  have "selection_state (page (onMouseClick ?rc ?w ?e (onMouseClick ?rc ?w ?e ?st)))
       = Showing (set_textContent (logical_or (userData kettle ''name'') (Str ''Component'')))
           (set_textContent (logical_or (logical_or (userData kettle ''details'')
              (userData kettle ''desc'')) (Str [])))
           (''Specifications: '' @ ToString (logical_or (userData kettle ''specs'') (Str [])))"
    by simp
  then show ?thesis
    by (simp add: kettle_tag logical_or_def set_textContent_def)
qed

section \<open>Resize\<close>

text \<open>
  A resize to a viewport of width 0 and height 0: the aspect is \<^verbatim>\<open>0 / 0\<close>, which is
  \<^verbatim>\<open>NaN\<close>, so \<open>left\<close> and \<open>right\<close> are both \<^verbatim>\<open>NaN\<close> and \<open>left\<close> does not equal
  \<open>- right\<close>.
\<close>

theorem resize_zero_viewport_counterexample:
  "camera_left (camera (onWindowResize Finite \<lparr>innerWidth = 0, innerHeight = 0\<rparr>
       \<lparr>camera = \<lparr>camera_left = Number True (Finite 12), camera_right = Number False (Finite 12),
                   camera_top = Number False (Finite 8), camera_bottom = Number True (Finite 8)\<rparr>,
        mouse = (Some 0, Some 0), scene = [kettle], renderer_size = (1200, 800),
        page = \<lparr>infoPanel_classList = {}, detailName_textContent = [],
                detailDesc_textContent = [], detailSpecs_textContent = []\<rparr>\<rparr>)) = NaN
   \<and> camera_right (camera (onWindowResize Finite \<lparr>innerWidth = 0, innerHeight = 0\<rparr>
       \<lparr>camera = \<lparr>camera_left = Number True (Finite 12), camera_right = Number False (Finite 12),
                   camera_top = Number False (Finite 8), camera_bottom = Number True (Finite 8)\<rparr>,
        mouse = (Some 0, Some 0), scene = [kettle], renderer_size = (1200, 800),
        page = \<lparr>infoPanel_classList = {}, detailName_textContent = [],
                detailDesc_textContent = [], detailSpecs_textContent = []\<rparr>\<rparr>)) = NaN
   \<and> \<not> strict_eq
       (camera_left (camera (onWindowResize Finite \<lparr>innerWidth = 0, innerHeight = 0\<rparr>
       \<lparr>camera = \<lparr>camera_left = Number True (Finite 12), camera_right = Number False (Finite 12),
                   camera_top = Number False (Finite 8), camera_bottom = Number True (Finite 8)\<rparr>,
        mouse = (Some 0, Some 0), scene = [kettle], renderer_size = (1200, 800),
        page = \<lparr>infoPanel_classList = {}, detailName_textContent = [],
                detailDesc_textContent = [], detailSpecs_textContent = []\<rparr>\<rparr>)))
       (num_neg (camera_right (camera (onWindowResize Finite \<lparr>innerWidth = 0, innerHeight = 0\<rparr>
       \<lparr>camera = \<lparr>camera_left = Number True (Finite 12), camera_right = Number False (Finite 12),
                   camera_top = Number False (Finite 8), camera_bottom = Number True (Finite 8)\<rparr>,
        mouse = (Some 0, Some 0), scene = [kettle], renderer_size = (1200, 800),
        page = \<lparr>infoPanel_classList = {}, detailName_textContent = [],
                detailDesc_textContent = [], detailSpecs_textContent = []\<rparr>\<rparr>))))"
  by (simp add: onWindowResize_def Let_def number_of_nat_def halfFrustum_eight)

text \<open>
  C9 (as amended). For every resize event with viewport dimensions (width, height) the
  handler sets, in the arithmetic of JavaScript numbers, \<open>left = (- halfFrustum) * aspect\<close>
  and \<open>right = halfFrustum * aspect\<close> with \<open>aspect = width / height\<close>,
  \<open>top = halfFrustum\<close> and \<open>bottom = - halfFrustum\<close>. Always \<open>bottom = - top\<close>; and
  \<open>left = - right\<close> holds exactly when width and height are not both zero. For a positive
  height \<open>left\<close> and \<open>right\<close> are the negative and the positive number of one magnitude, the
  rounded product of 8 and the rounded quotient; for height 0 and a positive width they
  are \<^verbatim>\<open>-Infinity\<close> and \<^verbatim>\<open>Infinity\<close>; for 0 by 0 both are \<^verbatim>\<open>NaN\<close>.
\<close>

theorem resize_symmetric_frustum:
  "camera_left (camera (onWindowResize rnd w st))
     = num_mul rnd (num_neg halfFrustum)
         (num_div rnd (number_of_nat (innerWidth w)) (number_of_nat (innerHeight w)))
   \<and> camera_right (camera (onWindowResize rnd w st))
     = num_mul rnd halfFrustum
         (num_div rnd (number_of_nat (innerWidth w)) (number_of_nat (innerHeight w)))
   \<and> camera_top (camera (onWindowResize rnd w st)) = halfFrustum
   \<and> camera_bottom (camera (onWindowResize rnd w st)) = num_neg halfFrustum
   \<and> strict_eq (camera_bottom (camera (onWindowResize rnd w st)))
        (num_neg (camera_top (camera (onWindowResize rnd w st))))
   \<and> (strict_eq (camera_left (camera (onWindowResize rnd w st)))
          (num_neg (camera_right (camera (onWindowResize rnd w st))))
        \<longleftrightarrow> \<not> (innerWidth w = 0 \<and> innerHeight w = 0))
   \<and> (0 < innerHeight w \<longrightarrow>
        camera_left (camera (onWindowResize rnd w st))
          = Number True (case rnd (real (innerWidth w) / real (innerHeight w)) of
                           Finite a \<Rightarrow> rnd (8 * a) | Infinite \<Rightarrow> Infinite)
        \<and> camera_right (camera (onWindowResize rnd w st))
          = Number False (case rnd (real (innerWidth w) / real (innerHeight w)) of
                           Finite a \<Rightarrow> rnd (8 * a) | Infinite \<Rightarrow> Infinite))
   \<and> (innerHeight w = 0 \<and> 0 < innerWidth w \<longrightarrow>
        camera_left (camera (onWindowResize rnd w st)) = Number True Infinite
        \<and> camera_right (camera (onWindowResize rnd w st)) = Number False Infinite)
   \<and> (innerHeight w = 0 \<and> innerWidth w = 0 \<longrightarrow>
        camera_left (camera (onWindowResize rnd w st)) = NaN
        \<and> camera_right (camera (onWindowResize rnd w st)) = NaN)"
proof -
  let ?l = "camera_left (camera (onWindowResize rnd w st))"
  let ?r = "camera_right (camera (onWindowResize rnd w st))"
  let ?m = "case rnd (real (innerWidth w) / real (innerHeight w)) of
              Finite a \<Rightarrow> rnd (8 * a) | Infinite \<Rightarrow> Infinite"
  have l: "?l = (if innerHeight w = 0 then (if innerWidth w = 0 then NaN else Number True Infinite)
                 else Number True ?m)"
    by (simp only: onWindowResize_camera frustum_sides)
  have r: "?r = (if innerHeight w = 0 then (if innerWidth w = 0 then NaN else Number False Infinite)
                 else Number False ?m)"
    by (simp only: onWindowResize_camera frustum_sides)
  have tb: "strict_eq (camera_bottom (camera (onWindowResize rnd w st)))
        (num_neg (camera_top (camera (onWindowResize rnd w st))))"
    by (simp add: onWindowResize_camera halfFrustum_eight)
  have sym: "strict_eq ?l (num_neg ?r) \<longleftrightarrow> \<not> (innerWidth w = 0 \<and> innerHeight w = 0)"
    unfolding l r by simp
  have pos: "0 < innerHeight w \<longrightarrow> ?l = Number True ?m \<and> ?r = Number False ?m"
    unfolding l r by simp
  have inf: "innerHeight w = 0 \<and> 0 < innerWidth w \<longrightarrow>
      ?l = Number True Infinite \<and> ?r = Number False Infinite"
    unfolding l r by simp
  have nan: "innerHeight w = 0 \<and> innerWidth w = 0 \<longrightarrow> ?l = NaN \<and> ?r = NaN"
    unfolding l r by simp
  note cam = onWindowResize_camera [of rnd w st]
  from cam(1) cam(2) cam(3) cam(4) tb sym pos inf nan show ?thesis
    by (intro conjI)
qed

text \<open>
  Resizes to 1200 by 800, to 1200 by 0 and to 0 by 0. The quotient 3/2 and the product 12
  are binary64 values, so rounding leaves them as they are.
\<close>

theorem resize_symmetric_frustum_witness:
  "camera_left (camera (onWindowResize Finite \<lparr>innerWidth = 1200, innerHeight = 800\<rparr>
       \<lparr>camera = \<lparr>camera_left = Number True (Finite 16), camera_right = Number False (Finite 16),
                   camera_top = Number False (Finite 8), camera_bottom = Number True (Finite 8)\<rparr>,
        mouse = (Some 0, Some 0), scene = [kettle], renderer_size = (1600, 800),
        page = \<lparr>infoPanel_classList = {}, detailName_textContent = [],
                detailDesc_textContent = [], detailSpecs_textContent = []\<rparr>\<rparr>))
     = Number True (Finite 12)
   \<and> camera_right (camera (onWindowResize Finite \<lparr>innerWidth = 1200, innerHeight = 800\<rparr>
       \<lparr>camera = \<lparr>camera_left = Number True (Finite 16), camera_right = Number False (Finite 16),
                   camera_top = Number False (Finite 8), camera_bottom = Number True (Finite 8)\<rparr>,
        mouse = (Some 0, Some 0), scene = [kettle], renderer_size = (1600, 800),
        page = \<lparr>infoPanel_classList = {}, detailName_textContent = [],
                detailDesc_textContent = [], detailSpecs_textContent = []\<rparr>\<rparr>))
     = Number False (Finite 12)
   \<and> camera_left (camera (onWindowResize Finite \<lparr>innerWidth = 1200, innerHeight = 0\<rparr>
       \<lparr>camera = \<lparr>camera_left = Number True (Finite 16), camera_right = Number False (Finite 16),
                   camera_top = Number False (Finite 8), camera_bottom = Number True (Finite 8)\<rparr>,
        mouse = (Some 0, Some 0), scene = [kettle], renderer_size = (1600, 800),
        page = \<lparr>infoPanel_classList = {}, detailName_textContent = [],
                detailDesc_textContent = [], detailSpecs_textContent = []\<rparr>\<rparr>))
     = Number True Infinite
   \<and> camera_left (camera (onWindowResize Finite \<lparr>innerWidth = 0, innerHeight = 0\<rparr>
       \<lparr>camera = \<lparr>camera_left = Number True (Finite 16), camera_right = Number False (Finite 16),
                   camera_top = Number False (Finite 8), camera_bottom = Number True (Finite 8)\<rparr>,
        mouse = (Some 0, Some 0), scene = [kettle], renderer_size = (1600, 800),
        page = \<lparr>infoPanel_classList = {}, detailName_textContent = [],
                detailDesc_textContent = [], detailSpecs_textContent = []\<rparr>\<rparr>))
     = NaN"
proof -
  let ?st = "\<lparr>camera = \<lparr>camera_left = Number True (Finite 16), camera_right = Number False (Finite 16),
                   camera_top = Number False (Finite 8), camera_bottom = Number True (Finite 8)\<rparr>,
        mouse = (Some 0, Some 0), scene = [kettle], renderer_size = (1600, 800),
        page = \<lparr>infoPanel_classList = {}, detailName_textContent = [],
                detailDesc_textContent = [], detailSpecs_textContent = []\<rparr>\<rparr>"
  let ?a = "\<lparr>innerWidth = 1200, innerHeight = 800\<rparr>"
  let ?b = "\<lparr>innerWidth = 1200, innerHeight = 0\<rparr>"
  let ?c = "\<lparr>innerWidth = 0, innerHeight = 0\<rparr>"
  from resize_symmetric_frustum [where rnd = Finite and w = ?a and st = ?st]
  have "0 < innerHeight ?a \<longrightarrow>
        camera_left (camera (onWindowResize Finite ?a ?st))
          = Number True (case Finite (real (innerWidth ?a) / real (innerHeight ?a)) of
                           Finite a \<Rightarrow> Finite (8 * a) | Infinite \<Rightarrow> Infinite)
        \<and> camera_right (camera (onWindowResize Finite ?a ?st))
          = Number False (case Finite (real (innerWidth ?a) / real (innerHeight ?a)) of
                           Finite a \<Rightarrow> Finite (8 * a) | Infinite \<Rightarrow> Infinite)"
    by (elim conjE)
  then have a: "camera_left (camera (onWindowResize Finite ?a ?st)) = Number True (Finite 12)"
    "camera_right (camera (onWindowResize Finite ?a ?st)) = Number False (Finite 12)"
    by simp_all
  from resize_symmetric_frustum [where rnd = Finite and w = ?b and st = ?st]
  have "innerHeight ?b = 0 \<and> 0 < innerWidth ?b \<longrightarrow>
        camera_left (camera (onWindowResize Finite ?b ?st)) = Number True Infinite
        \<and> camera_right (camera (onWindowResize Finite ?b ?st)) = Number False Infinite"
    by (elim conjE)
  then have b: "camera_left (camera (onWindowResize Finite ?b ?st)) = Number True Infinite"
    by simp
  from resize_symmetric_frustum [where rnd = Finite and w = ?c and st = ?st]
  have "innerHeight ?c = 0 \<and> innerWidth ?c = 0 \<longrightarrow>
        camera_left (camera (onWindowResize Finite ?c ?st)) = NaN
        \<and> camera_right (camera (onWindowResize Finite ?c ?st)) = NaN"
    by (elim conjE)
  then have c: "camera_left (camera (onWindowResize Finite ?c ?st)) = NaN"
    by simp
  from a b c show ?thesis by (intro conjI)
qed

section \<open>Placeholder name\<close>

text \<open>
  C10. When a click resolves to a tag whose name is falsy, in particular the empty
  string, the name shown is the placeholder \<^verbatim>\<open>Component\<close>; a name that is a non-empty
  string is shown verbatim.
\<close>

theorem falsy_name_placeholder:
  assumes "pickResolution rc w event st = Picked data"
  shows "(\<not> truthy (data ''name'') \<longrightarrow>
            detailName_textContent (page (onMouseClick rc w event st)) = ''Component'')
     \<and> (data ''name'' = Str [] \<longrightarrow>
            detailName_textContent (page (onMouseClick rc w event st)) = ''Component'')
     \<and> (\<forall>s. data ''name'' = Str s \<and> s \<noteq> [] \<longrightarrow>
            detailName_textContent (page (onMouseClick rc w event st)) = s)
     \<and> detailName_textContent (page (onMouseClick rc w event st))
           = detailName_textContent (displayComponentInfo data (page st))"
  using assms
  by (auto simp: onMouseClick_cases displayComponentInfo_def logical_or_def set_textContent_def)

text \<open>A component created with the empty name, and the kettle.\<close>

theorem falsy_name_placeholder_witness:
  "detailName_textContent (page (onMouseClick
       (\<lambda>m c s. [\<lparr>distance = 3, object = createComponent (Str []) None\<rparr>])
       \<lparr>innerWidth = 800, innerHeight = 600\<rparr> \<lparr>clientX = 400, clientY = 300\<rparr>
       \<lparr>camera = \<lparr>camera_left = Number True (Finite 12), camera_right = Number False (Finite 12),
                   camera_top = Number False (Finite 8), camera_bottom = Number True (Finite 8)\<rparr>,
        mouse = (Some 0, Some 0), scene = [createComponent (Str []) None],
        renderer_size = (800, 600),
        page = \<lparr>infoPanel_classList = {}, detailName_textContent = [],
                detailDesc_textContent = [], detailSpecs_textContent = []\<rparr>\<rparr>)) = ''Component''
   \<and> detailName_textContent (page (onMouseClick
       (\<lambda>m c s. [\<lparr>distance = 3, object = kettle\<rparr>])
       \<lparr>innerWidth = 800, innerHeight = 600\<rparr> \<lparr>clientX = 400, clientY = 300\<rparr>
       \<lparr>camera = \<lparr>camera_left = Number True (Finite 12), camera_right = Number False (Finite 12),
                   camera_top = Number False (Finite 8), camera_bottom = Number True (Finite 8)\<rparr>,
        mouse = (Some 0, Some 0), scene = [kettle], renderer_size = (800, 600),
        page = \<lparr>infoPanel_classList = {}, detailName_textContent = [],
                detailDesc_textContent = [], detailSpecs_textContent = []\<rparr>\<rparr>)) = ''Kettle''"
proof -
  let ?w = "\<lparr>innerWidth = 800, innerHeight = 600\<rparr>"
  let ?e = "\<lparr>clientX = 400, clientY = 300\<rparr>"
  let ?cam = "\<lparr>camera_left = Number True (Finite 12), camera_right = Number False (Finite 12),
                   camera_top = Number False (Finite 8), camera_bottom = Number True (Finite 8)\<rparr>"
  let ?pg = "\<lparr>infoPanel_classList = {}, detailName_textContent = [],
                detailDesc_textContent = [], detailSpecs_textContent = []\<rparr>"
  let ?anon = "createComponent (Str []) None"
  let ?rc1 = "\<lambda>m c s. [\<lparr>distance = 3, object = ?anon\<rparr>] :: intersection list"
  let ?rc2 = "\<lambda>m c s. [\<lparr>distance = 3, object = kettle\<rparr>] :: intersection list"
  let ?st1 = "\<lparr>camera = ?cam, mouse = (Some 0, Some 0), scene = [?anon],
        renderer_size = (800, 600), page = ?pg\<rparr>"
  let ?st2 = "\<lparr>camera = ?cam, mouse = (Some 0, Some 0), scene = [kettle],
        renderer_size = (800, 600), page = ?pg\<rparr>"
  have p1: "pickResolution ?rc1 ?w ?e ?st1 = Picked (userData ?anon)"
    by (simp add: pickResolution_def cast_def resolve_def intersects_def clickable_def
        createComponent_isComponent)
  have n1: "userData ?anon ''name'' = Str []"
    by (simp add: createComponent_def Let_def)
  have p2: "pickResolution ?rc2 ?w ?e ?st2 = Picked (userData kettle)"
    by (simp add: pickResolution_def cast_def resolve_def intersects_def clickable_def kettle_tag)
  from falsy_name_placeholder [OF p1] n1
  have a: "detailName_textContent (page (onMouseClick ?rc1 ?w ?e ?st1)) = ''Component''"
    by blast
  from falsy_name_placeholder [OF p2] kettle_tag(3)
  have b: "detailName_textContent (page (onMouseClick ?rc2 ?w ?e ?st2)) = ''Kettle''"
    by simp
  from a b show ?thesis by blast
qed

end
